theory Spec2Isabelle
  imports Complex_Main "HOL-Library.AList" "HOL-Library.Sublist"
begin

section \<open>GridMove to KZones converter: the conversion pipeline\<close>

text \<open>
  A shallow embedding of \<^verbatim>\<open>02-run-this-script/convert_gridmove_to_kzones.py\<close>.
  Python's \<^verbatim>\<open>float\<close> values are modelled as exact rationals: \<^verbatim>\<open>min\<close>, \<^verbatim>\<open>max\<close>
  and comparisons are exact on floats as well, subtraction and division are taken without
  the rounding of IEEE arithmetic, and overflow, infinities and NaN do not occur. Python's \<^verbatim>\<open>str\<close> is
  modelled as \<^typ>\<open>string\<close>, one \<^typ>\<open>char\<close> per code point below 256.
\<close>

subsection \<open>Numbers: clamp and round\<close>

text \<open>\<^verbatim>\<open>def clamp(v, lo=0.0, hi=100.0): return max(lo, min(hi, v))\<close>\<close>

definition clamp3 :: "rat \<Rightarrow> rat \<Rightarrow> rat \<Rightarrow> rat" where
  "clamp3 v lo hi = max lo (min hi v)"

definition clamp :: "rat \<Rightarrow> rat" where
  "clamp v = clamp3 v 0 100"

text \<open>
  Python's \<^verbatim>\<open>round(v, 3)\<close> on a float rounds to the nearest multiple of \<open>1/1000\<close>
  and an exact tie to the even one.
\<close>

definition round_half_even :: "rat \<Rightarrow> int" where
  "round_half_even q =
     (let f = \<lfloor>q\<rfloor>; d = q - of_int f
      in if d < 1 / 2 then f
         else if 1 / 2 < d then f + 1
         else if even f then f else f + 1)"

definition py_round :: "rat \<Rightarrow> nat \<Rightarrow> rat" where
  "py_round v ndigits = of_int (round_half_even (v * 10 ^ ndigits)) / 10 ^ ndigits"

subsection \<open>Zones\<close>

text \<open>The dictionaries \<^verbatim>\<open>{"x": .., "y": .., "width": .., "height": ..}\<close> of the zone list.\<close>

record zone =
  x :: rat
  y :: rat
  width :: rat
  height :: rat

text \<open>
  Lines 93 to 100 of \<^verbatim>\<open>convert\<close>, for the four evaluated edges of one group: the
  rectangle appended to \<^verbatim>\<open>zones\<close>, or \<open>None\<close> when nothing is appended.
\<close>

definition normalize :: "rat \<Rightarrow> rat \<Rightarrow> rat \<Rightarrow> rat \<Rightarrow> zone option" where
  "normalize L R T B =
     (let x0 = clamp (min L R);
          y0 = clamp (min T B);
          w0 = clamp (max L R) - x0;
          h0 = clamp (max T B) - y0;
          x1 = clamp x0; y1 = clamp y0;
          w1 = clamp w0; h1 = clamp h0
      in if 0 < w1 \<and> 0 < h1
         then Some \<lparr>x = py_round x1 3, y = py_round y1 3,
                     width = py_round w1 3, height = py_round h1 3\<rparr>
         else None)"

subsection \<open>Characters\<close>

text \<open>
  \<^verbatim>\<open>str.isspace\<close> on one character, which is also what \<^verbatim>\<open>\s\<close> matches in a regular
  expression on \<^verbatim>\<open>str\<close>: U+0009 to U+000D, U+001C to U+0020, U+0085 and U+00A0.
\<close>

definition isspace :: "char \<Rightarrow> bool" where
  "isspace c =
     (let n = (of_char c :: nat)
      in (9 \<le> n \<and> n \<le> 13) \<or> (28 \<le> n \<and> n \<le> 32) \<or> n = 133 \<or> n = 160)"

definition isdigit :: "char \<Rightarrow> bool" where
  "isdigit c = (let n = (of_char c :: nat) in 48 \<le> n \<and> n \<le> 57)"

definition isletter :: "char \<Rightarrow> bool" where
  "isletter c =
     (let n = (of_char c :: nat) in (65 \<le> n \<and> n \<le> 90) \<or> (97 \<le> n \<and> n \<le> 122))"

subsection \<open>The expression evaluator\<close>

text \<open>
  Exceptions are values. \<open>ValueError\<close> carries its message; \<open>UnboundName\<close> is the
  exception of a name lookup that finds the name neither in \<^verbatim>\<open>VARS\<close> nor in the globals
  \<^verbatim>\<open>{"__builtins__": None}\<close>. \<open>Unmodelled\<close> is not an exception of Python: it marks
  an input on which this embedding does not say what Python does.
\<close>

datatype py_error =
    ValueError string
  | SyntaxError
  | UnboundName string
  | ZeroDivisionError
  | KeyError string
  | FileNotFoundError
  | Unmodelled

definition VARS :: "string \<rightharpoonup> rat" where
  "VARS = map_of
     [(''Monitor1Left'', 0),
      (''Monitor1Top'', 0),
      (''Monitor1Width'', 100),
      (''Monitor1Height'', 100),
      (''Monitor1Right'', 100),
      (''Monitor1Bottom'', 100)]"

text \<open>\<^verbatim>\<open>SAFE_PATTERN = re.compile(r'^[A-Za-z0-9_\.\+\-\*\/\(\)\s]+$')\<close> and its \<^verbatim>\<open>fullmatch\<close>.\<close>

definition safe_char :: "char \<Rightarrow> bool" where
  "safe_char c = (isletter c \<or> isdigit c \<or> c \<in> set ''_.+-*/()'' \<or> isspace c)"

definition SAFE_PATTERN_fullmatch :: "string \<Rightarrow> bool" where
  "SAFE_PATTERN_fullmatch s = (s \<noteq> [] \<and> list_all safe_char s)"

text \<open>\<^verbatim>\<open>expr.replace('[','').replace(']','')\<close>\<close>

definition remove_brackets :: "string \<Rightarrow> string" where
  "remove_brackets expr = filter (\<lambda>c. c \<noteq> CHR '']'') (filter (\<lambda>c. c \<noteq> CHR ''['') expr)"

subsubsection \<open>Python's \<^verbatim>\<open>eval\<close> on arithmetic expressions\<close>

text \<open>
  \<^verbatim>\<open>eval(expr, {"__builtins__": None}, VARS)\<close> is a builtin of the language. It is
  modelled on the expressions built from decimal literals, names, unary and binary
  \<^verbatim>\<open>+ - * /\<close>, parentheses and the short-circuit operators \<^verbatim>\<open>or\<close> and \<^verbatim>\<open>and\<close>:
  tokens, then a syntax tree, then its evaluation from left to right. Everything else
  that Python's grammar admits (other keywords, \<^verbatim>\<open>**\<close> and \<^verbatim>\<open>//\<close>, attribute access,
  calls, the empty tuple, literals with an exponent, a base prefix, an underscore or a
  suffix, whitespace other than blank and tab) is answered \<open>Unmodelled\<close>, as is a value
  that is not a number. The interpreter's resource limits are not modelled.
\<close>

datatype token =
    NUMBER rat | NAME string
  | PLUS | MINUS | STAR | SLASH | LPAR | RPAR
  | KW_OR | KW_AND

definition py_keywords :: "string list" where
  "py_keywords =
     [''False'', ''None'', ''True'', ''and'', ''as'', ''assert'', ''async'', ''await'',
      ''break'', ''class'', ''continue'', ''def'', ''del'', ''elif'', ''else'', ''except'',
      ''finally'', ''for'', ''from'', ''global'', ''if'', ''import'', ''in'', ''is'',
      ''lambda'', ''nonlocal'', ''not'', ''or'', ''pass'', ''raise'', ''return'', ''try'',
      ''while'', ''with'', ''yield'']"

definition is_ident_start :: "char \<Rightarrow> bool" where
  "is_ident_start c = (isletter c \<or> c = CHR ''_'')"

definition is_ident_char :: "char \<Rightarrow> bool" where
  "is_ident_char c = (isletter c \<or> isdigit c \<or> c = CHR ''_'')"

definition decimal :: "string \<Rightarrow> nat" where
  "decimal ds = foldl (\<lambda>a d. 10 * a + (of_char d - 48)) 0 ds"

text \<open>A literal must not run into a letter or an underscore.\<close>

definition literal_ends :: "string \<Rightarrow> bool" where
  "literal_ends rest = (case rest of [] \<Rightarrow> True | c # _ \<Rightarrow> \<not> is_ident_start c)"

text \<open>A word is one of the two modelled keywords, another keyword, or a name.\<close>

definition word_token :: "string \<Rightarrow> py_error + token" where
  "word_token w =
     (if w = ''or'' then Inr KW_OR
      else if w = ''and'' then Inr KW_AND
      else if w \<in> set py_keywords then Inl Unmodelled
      else Inr (NAME w))"

text \<open>
  The first token of a string that starts with neither a blank nor a tab, and the rest
  of the string.
\<close>

definition next_token :: "string \<Rightarrow> py_error + (token \<times> string)" where
  "next_token s =
     (case s of
        [] \<Rightarrow> Inl SyntaxError
      | c # cs \<Rightarrow>
          if is_ident_start c then
            (case word_token (c # takeWhile is_ident_char cs) of
               Inl err \<Rightarrow> Inl err
             | Inr t \<Rightarrow> Inr (t, dropWhile is_ident_char cs))
          else if isdigit c then
            (let ip = c # takeWhile isdigit cs; r1 = dropWhile isdigit cs
             in if prefix ''.'' r1 then
                  (let fp = takeWhile isdigit (drop 1 r1); r3 = dropWhile isdigit (drop 1 r1)
                   in if literal_ends r3
                      then Inr (NUMBER (of_nat (decimal ip)
                                         + of_nat (decimal fp) / 10 ^ length fp), r3)
                      else Inl Unmodelled)
                else if literal_ends r1 \<and> (c \<noteq> CHR ''0'' \<or> cs = r1)
                then Inr (NUMBER (of_nat (decimal ip)), r1)
                else Inl Unmodelled)
          else if c = CHR ''.'' then
            (let fp = takeWhile isdigit cs; r3 = dropWhile isdigit cs
             in if fp \<noteq> [] \<and> literal_ends r3
                then Inr (NUMBER (of_nat (decimal fp) / 10 ^ length fp), r3)
                else Inl Unmodelled)
          else if c = CHR ''+'' then Inr (PLUS, cs)
          else if c = CHR ''-'' then Inr (MINUS, cs)
          else if c = CHR ''('' then Inr (LPAR, cs)
          else if c = CHR '')'' then Inr (RPAR, cs)
          else if c = CHR ''*'' then
            (if prefix ''*'' cs then Inl Unmodelled else Inr (STAR, cs))
          else if c = CHR ''/'' then
            (if prefix ''/'' cs then Inl Unmodelled else Inr (SLASH, cs))
          else Inl Unmodelled)"

lemma length_dropWhile_less_Suc: "length (dropWhile P xs) < Suc (length xs)"
  by (simp add: le_imp_less_Suc length_dropWhile_le)

lemma length_dropWhile_drop_less_Suc:
  "length (dropWhile Q (drop n (dropWhile P xs))) < Suc (length xs)"
proof -
  have "length (dropWhile Q (drop n (dropWhile P xs))) \<le> length (drop n (dropWhile P xs))"
    by (rule length_dropWhile_le)
  also have "\<dots> \<le> length (dropWhile P xs)" by simp
  also have "\<dots> \<le> length xs" by (rule length_dropWhile_le)
  finally show ?thesis by simp
qed

lemma next_token_shorter: "next_token s = Inr (t, rest) \<Longrightarrow> length rest < length s"
  by (cases s)
     (auto simp: next_token_def Let_def length_dropWhile_less_Suc
                 length_dropWhile_drop_less_Suc
           split: if_splits sum.splits)

text \<open>Blanks and tabs separate tokens; the first failing token decides.\<close>

function tokenize :: "string \<Rightarrow> py_error + token list" where
  "tokenize [] = Inr []"
| "tokenize (c # cs) =
     (if c = CHR '' '' \<or> c = CHR 0x09 then tokenize cs
      else case next_token (c # cs) of
             Inl err \<Rightarrow> Inl err
           | Inr (t, rest) \<Rightarrow>
               (case tokenize rest of Inl err \<Rightarrow> Inl err | Inr ts \<Rightarrow> Inr (t # ts)))"
  by pat_completeness auto
termination
  by (relation "measure length") (auto dest: next_token_shorter)

text \<open>The syntax tree, with the node names of Python's \<^verbatim>\<open>ast\<close> module.\<close>

datatype unaryop = UAdd | USub
datatype operator = Add | Sub | Mult | Div
datatype boolop = Or | And

datatype expr =
    Constant rat
  | Name string
  | UnaryOp unaryop expr
  | BinOp expr operator expr
  | BoolOp boolop expr expr

text \<open>
  Operator-precedence parsing with a stack of pending operators and a stack of finished
  operands. From loosest to tightest: \<^verbatim>\<open>or\<close>, \<^verbatim>\<open>and\<close>, binary \<^verbatim>\<open>+ -\<close>, \<^verbatim>\<open>* /\<close>,
  unary \<^verbatim>\<open>+ -\<close>; the binary operators associate to the left.
\<close>

datatype pending = Paren | Unary unaryop | Binary operator | Bool boolop

fun prec :: "pending \<Rightarrow> nat" where
  "prec Paren = 0"
| "prec (Bool Or) = 1"
| "prec (Bool And) = 2"
| "prec (Binary Add) = 3"
| "prec (Binary Sub) = 3"
| "prec (Binary Mult) = 4"
| "prec (Binary Div) = 4"
| "prec (Unary u) = 5"

fun reduce :: "pending \<Rightarrow> expr list \<Rightarrow> expr list option" where
  "reduce (Unary u) (e # es) = Some (UnaryOp u e # es)"
| "reduce (Binary b) (r # l # es) = Some (BinOp l b r # es)"
| "reduce (Bool b) (r # l # es) = Some (BoolOp b l r # es)"
| "reduce _ _ = None"

text \<open>Apply the pending operators that bind at least as tightly as \<open>p\<close>, up to a parenthesis.\<close>

fun unwind :: "nat \<Rightarrow> pending list \<Rightarrow> expr list \<Rightarrow> (pending list \<times> expr list) option" where
  "unwind p [] es = Some ([], es)"
| "unwind p (i # is) es =
     (if i = Paren \<or> prec i < p then Some (i # is, es)
      else case reduce i es of None \<Rightarrow> None | Some es' \<Rightarrow> unwind p is es')"

definition binary_of :: "token \<Rightarrow> pending option" where
  "binary_of t =
     (case t of
        PLUS \<Rightarrow> Some (Binary Add) | MINUS \<Rightarrow> Some (Binary Sub)
      | STAR \<Rightarrow> Some (Binary Mult) | SLASH \<Rightarrow> Some (Binary Div)
      | KW_OR \<Rightarrow> Some (Bool Or) | KW_AND \<Rightarrow> Some (Bool And)
      | _ \<Rightarrow> None)"

text \<open>
  One token: \<open>operand\<close> says that an operand is expected next, and the result is the
  next state. A parenthesis after an operand is a call and \<^verbatim>\<open>()\<close> is the empty tuple:
  both are outside the model. Every other token out of place is a syntax error of Python.
\<close>

fun parse_step ::
  "bool \<Rightarrow> pending list \<Rightarrow> expr list \<Rightarrow> token \<Rightarrow> py_error + (bool \<times> pending list \<times> expr list)"
where
  "parse_step True ops es (NUMBER v) = Inr (False, ops, Constant v # es)"
| "parse_step True ops es (NAME n) = Inr (False, ops, Name n # es)"
| "parse_step True ops es PLUS = Inr (True, Unary UAdd # ops, es)"
| "parse_step True ops es MINUS = Inr (True, Unary USub # ops, es)"
| "parse_step True ops es LPAR = Inr (True, Paren # ops, es)"
| "parse_step True ops es RPAR =
     (case ops of Paren # _ \<Rightarrow> Inl Unmodelled | _ \<Rightarrow> Inl SyntaxError)"
| "parse_step True ops es t = Inl SyntaxError"
| "parse_step False ops es (NUMBER v) = Inl SyntaxError"
| "parse_step False ops es (NAME n) = Inl SyntaxError"
| "parse_step False ops es LPAR = Inl Unmodelled"
| "parse_step False ops es RPAR =
     (case unwind 1 ops es of
        Some (Paren # ops', es') \<Rightarrow> Inr (False, ops', es')
      | _ \<Rightarrow> Inl SyntaxError)"
| "parse_step False ops es t =
     (case binary_of t of
        None \<Rightarrow> Inl SyntaxError
      | Some b \<Rightarrow>
          (case unwind (prec b) ops es of
             None \<Rightarrow> Inl SyntaxError
           | Some (ops', es') \<Rightarrow> Inr (True, b # ops', es')))"

text \<open>
  The tokens from left to right. At the end an operand must not be missing, no
  parenthesis may be open, and the pending operators leave one expression.
\<close>

fun parse :: "bool \<Rightarrow> pending list \<Rightarrow> expr list \<Rightarrow> token list \<Rightarrow> py_error + expr" where
  "parse operand ops es [] =
     (if operand then Inl SyntaxError
      else case unwind 0 ops es of Some ([], [e]) \<Rightarrow> Inr e | _ \<Rightarrow> Inl SyntaxError)"
| "parse operand ops es (t # ts) =
     (case parse_step operand ops es t of
        Inl err \<Rightarrow> Inl err
      | Inr (operand', ops', es') \<Rightarrow> parse operand' ops' es' ts)"

text \<open>
  Evaluation, left operand first. A name is looked up in \<^verbatim>\<open>VARS\<close>, then in the
  globals, whose only entry \<^verbatim>\<open>__builtins__\<close> is \<^verbatim>\<open>None\<close> (not a number), then in
  the builtins, which are \<^verbatim>\<open>None\<close>, so that the lookup raises. \<^verbatim>\<open>/\<close> is true
  division. \<^verbatim>\<open>or\<close> and \<^verbatim>\<open>and\<close> return their left operand without evaluating the
  right one when it is nonzero, respectively zero.
\<close>

fun eval_expr :: "expr \<Rightarrow> py_error + rat" where
  "eval_expr (Constant v) = Inr v"
| "eval_expr (Name n) =
     (case VARS n of
        Some v \<Rightarrow> Inr v
      | None \<Rightarrow> if n = ''__builtins__'' then Inl Unmodelled else Inl (UnboundName n))"
| "eval_expr (UnaryOp u e) =
     (case eval_expr e of
        Inl err \<Rightarrow> Inl err
      | Inr v \<Rightarrow> Inr (case u of UAdd \<Rightarrow> v | USub \<Rightarrow> - v))"
| "eval_expr (BinOp l b r) =
     (case eval_expr l of
        Inl err \<Rightarrow> Inl err
      | Inr a \<Rightarrow>
          (case eval_expr r of
             Inl err \<Rightarrow> Inl err
           | Inr c \<Rightarrow>
               (case b of
                  Add \<Rightarrow> Inr (a + c)
                | Sub \<Rightarrow> Inr (a - c)
                | Mult \<Rightarrow> Inr (a * c)
                | Div \<Rightarrow> if c = 0 then Inl ZeroDivisionError else Inr (a / c))))"
| "eval_expr (BoolOp Or l r) =
     (case eval_expr l of
        Inl err \<Rightarrow> Inl err
      | Inr a \<Rightarrow> if a \<noteq> 0 then Inr a else eval_expr r)"
| "eval_expr (BoolOp And l r) =
     (case eval_expr l of
        Inl err \<Rightarrow> Inl err
      | Inr a \<Rightarrow> if a = 0 then Inr a else eval_expr r)"

text \<open>\<^verbatim>\<open>float(eval(expr, {"__builtins__": None}, VARS))\<close>\<close>

definition py_eval :: "string \<Rightarrow> py_error + rat" where
  "py_eval s =
     (case tokenize s of
        Inl err \<Rightarrow> Inl err
      | Inr ts \<Rightarrow>
          (case parse True [] [] ts of Inl err \<Rightarrow> Inl err | Inr e \<Rightarrow> eval_expr e))"

definition safe_eval :: "string \<Rightarrow> py_error + rat" where
  "safe_eval expr =
     (let expr' = remove_brackets expr
      in if \<not> SAFE_PATTERN_fullmatch expr'
         then Inl (ValueError (''Unsafe/unsupported expression: '' @ expr'))
         else py_eval expr')"

subsection \<open>The section parser\<close>

text \<open>
  \<^verbatim>\<open>str.splitlines\<close>: a line ends at a line feed, a carriage return (with the line feed
  that follows it, if any), U+000B, U+000C, U+001C, U+001D, U+001E or U+0085; the text
  after the last boundary is a line if it is not empty.
\<close>

definition line_boundary :: "char \<Rightarrow> bool" where
  "line_boundary c =
     (let n = (of_char c :: nat) in (10 \<le> n \<and> n \<le> 13) \<or> (28 \<le> n \<and> n \<le> 30) \<or> n = 133)"

fun splitlines_from :: "string \<Rightarrow> string \<Rightarrow> string list" where
  "splitlines_from cur [] = (if cur = [] then [] else [cur])"
| "splitlines_from cur (c # cs) =
     (if c = CHR 0x0D \<and> prefix [CHR 0x0A] cs then cur # splitlines_from [] (drop 1 cs)
      else if line_boundary c then cur # splitlines_from [] cs
      else splitlines_from (cur @ [c]) cs)"

definition splitlines :: "string \<Rightarrow> string list" where
  "splitlines text = splitlines_from [] text"

text \<open>\<^verbatim>\<open>str.strip()\<close>\<close>

definition strip :: "string \<Rightarrow> string" where
  "strip s = rev (dropWhile isspace (rev (dropWhile isspace s)))"

text \<open>\<^verbatim>\<open>re.match(r'^\[(\d+)\]', line)\<close>\<close>

definition header_match :: "string \<Rightarrow> bool" where
  "header_match line =
     (prefix ''['' line
      \<and> takeWhile isdigit (drop 1 line) \<noteq> []
      \<and> prefix '']'' (dropWhile isdigit (drop 1 line)))"

text \<open>
  \<^verbatim>\<open>re.match(r'^(GridTop|GridBottom|GridLeft|GridRight)\s*=\s*(.+)$', line)\<close> and
  its two groups, for a line that holds no line feed (the lines of \<^verbatim>\<open>splitlines\<close> hold
  none). The second \<^verbatim>\<open>\s*\<close> is greedy and gives back its last character when
  nothing else is left for \<^verbatim>\<open>.+\<close>.
\<close>

definition grid_keys :: "string list" where
  "grid_keys = [''GridTop'', ''GridBottom'', ''GridLeft'', ''GridRight'']"

definition kv_match :: "string \<Rightarrow> (string \<times> string) option" where
  "kv_match line =
     (case find (\<lambda>k. prefix k line) grid_keys of
        None \<Rightarrow> None
      | Some k \<Rightarrow>
          (let r0 = dropWhile isspace (drop (length k) line)
           in if prefix ''='' r0 then
                (let r = drop 1 r0; v = dropWhile isspace r
                 in if v \<noteq> [] then Some (k, v)
                    else if r \<noteq> [] then Some (k, [last r])
                    else None)
              else None))"

text \<open>
  A group is a Python \<^verbatim>\<open>dict\<close> from key to raw expression, kept as an association
  list in insertion order; \<^verbatim>\<open>cur[k] = v\<close> is \<^const>\<open>AList.update\<close>.
\<close>

type_synonym group = "(string \<times> string) list"

text \<open>\<^verbatim>\<open>if cur: groups.append(cur)\<close>: \<^verbatim>\<open>None\<close> and the empty dict are both false.\<close>

definition flush :: "group list \<Rightarrow> group option \<Rightarrow> group list" where
  "flush groups cur =
     (case cur of
        None \<Rightarrow> groups
      | Some g \<Rightarrow> if g \<noteq> [] then groups @ [g] else groups)"

text \<open>The body of the loop of \<^verbatim>\<open>parse_groups\<close>, on the state \<^verbatim>\<open>(groups, cur)\<close>.\<close>

definition parse_line :: "group list \<times> group option \<Rightarrow> string \<Rightarrow> group list \<times> group option" where
  "parse_line st raw =
     (let groups = fst st; cur = snd st; line = strip raw
      in if line = [] \<or> prefix '';'' line then (groups, cur)
         else if header_match line then (flush groups cur, Some [])
         else case cur of
                None \<Rightarrow> (groups, cur)
              | Some g \<Rightarrow>
                  (case kv_match line of
                     Some (k, v) \<Rightarrow> (groups, Some (AList.update k v g))
                   | None \<Rightarrow> (groups, cur)))"

definition parse_groups :: "string \<Rightarrow> group list" where
  "parse_groups text =
     (let st = foldl parse_line ([], None) (splitlines text)
      in flush (fst st) (snd st))"

subsection \<open>The converter\<close>

text \<open>\<^verbatim>\<open>g[k]\<close>\<close>

definition getitem :: "group \<Rightarrow> string \<Rightarrow> py_error + string" where
  "getitem g k = (case map_of g k of None \<Rightarrow> Inl (KeyError k) | Some v \<Rightarrow> Inr v)"

text \<open>\<^verbatim>\<open>all(k in g for k in ("GridLeft","GridRight","GridTop","GridBottom"))\<close>\<close>

definition has_all_keys :: "group \<Rightarrow> bool" where
  "has_all_keys g =
     list_all (\<lambda>k. map_of g k \<noteq> None) [''GridLeft'', ''GridRight'', ''GridTop'', ''GridBottom'']"

text \<open>\<^verbatim>\<open>safe_eval(g[k])\<close>\<close>

definition edge :: "group \<Rightarrow> string \<Rightarrow> py_error + rat" where
  "edge g k = (case getitem g k of Inl err \<Rightarrow> Inl err | Inr v \<Rightarrow> safe_eval v)"

text \<open>
  The body of the first loop of \<^verbatim>\<open>convert\<close>, lines 87 to 100: what one group appends
  to \<^verbatim>\<open>zones\<close>, or the exception it raises.
\<close>

definition convert_group :: "group \<Rightarrow> py_error + zone option" where
  "convert_group g =
     (if \<not> has_all_keys g then Inr None
      else case edge g ''GridLeft'' of Inl err \<Rightarrow> Inl err | Inr L \<Rightarrow>
           case edge g ''GridRight'' of Inl err \<Rightarrow> Inl err | Inr R \<Rightarrow>
           case edge g ''GridTop'' of Inl err \<Rightarrow> Inl err | Inr T \<Rightarrow>
           case edge g ''GridBottom'' of Inl err \<Rightarrow> Inl err | Inr B \<Rightarrow>
           Inr (normalize L R T B))"

fun collect_zones :: "zone list \<Rightarrow> group list \<Rightarrow> py_error + zone list" where
  "collect_zones zones [] = Inr zones"
| "collect_zones zones (g # gs) =
     (case convert_group g of
        Inl err \<Rightarrow> Inl err
      | Inr None \<Rightarrow> collect_zones zones gs
      | Inr (Some z) \<Rightarrow> collect_zones (zones @ [z]) gs)"

text \<open>The second loop, lines 102 to 108: \<^verbatim>\<open>uniq\<close> and \<^verbatim>\<open>seen\<close>.\<close>

definition key :: "zone \<Rightarrow> rat \<times> rat \<times> rat \<times> rat" where
  "key z = (x z, y z, width z, height z)"

fun dedupe :: "zone list \<Rightarrow> (rat \<times> rat \<times> rat \<times> rat) set \<Rightarrow> zone list \<Rightarrow> zone list" where
  "dedupe uniq seen [] = uniq"
| "dedupe uniq seen (z # zs) =
     (if key z \<notin> seen then dedupe (uniq @ [z]) (insert (key z) seen) zs
      else dedupe uniq seen zs)"

definition convert :: "group list \<Rightarrow> py_error + zone list" where
  "convert groups =
     (case collect_zones [] groups of
        Inl err \<Rightarrow> Inl err
      | Inr zones \<Rightarrow> Inr (dedupe [] {} zones))"

subsection \<open>Writing the layout\<close>

record layout =
  name :: string
  padding :: int
  zones :: "zone list"

definition make_layout :: "zone list \<Rightarrow> string \<Rightarrow> layout list" where
  "make_layout zs nm = [\<lparr>name = nm @ '' (converted)'', padding = 0, zones = zs\<rparr>]"

text \<open>
  The file system: a path is the list of its components, a file holds text or the
  document that \<^verbatim>\<open>json.dumps\<close> serialises. \<^verbatim>\<open>Path.stem\<close> is the last component without
  its last suffix.
\<close>

type_synonym path = "string list"

datatype content = Text string | Json "layout list"

record filesystem =
  dirs :: "path set"
  files :: "path \<rightharpoonup> content"

definition stem :: "path \<Rightarrow> string" where
  "stem p =
     (if p = [] then []
      else let nm = last p; suffix = rev (takeWhile (\<lambda>c. c \<noteq> CHR ''.'') (rev nm))
           in if CHR ''.'' \<in> set nm \<and> suffix \<noteq> [] \<and> length suffix + 1 < length nm
              then take (length nm - length suffix - 1) nm
              else nm)"

text \<open>
  \<^verbatim>\<open>convert_file\<close>, lines 142 to 148 and its result: the file system it leaves, and
  the destination or the exception. The console output is left out.
\<close>

definition convert_file :: "path \<Rightarrow> path \<Rightarrow> filesystem \<Rightarrow> filesystem \<times> (py_error + path)" where
  "convert_file src_path outdir fs =
     (case files fs src_path of
        None \<Rightarrow> (fs, Inl FileNotFoundError)
      | Some (Json d) \<Rightarrow> (fs, Inl Unmodelled)
      | Some (Text text) \<Rightarrow>
          (let groups = parse_groups text
           in case convert groups of
                Inl err \<Rightarrow> (fs, Inl err)
              | Inr zs \<Rightarrow>
                  (let layout = make_layout zs (stem src_path);
                       dst = outdir @ [stem src_path @ ''_kzones.json'']
                   in (fs\<lparr>dirs := dirs fs \<union> set (prefixes outdir),
                          files := (files fs)(dst \<mapsto> Json layout)\<rparr>,
                       Inr dst))))"

subsection \<open>Names and operators of a syntax tree\<close>




subsection \<open>The normalizer in the words of the specification\<close>


section \<open>Properties\<close>

subsection \<open>Brackets in an expression\<close>

lemma remove_brackets_filter:
  "remove_brackets (filter (\<lambda>c. c \<noteq> CHR ''['' \<and> c \<noteq> CHR '']'') e) = remove_brackets e"
  by (induction e) (auto simp: remove_brackets_def)

lemma safe_eval_Monitor1Width: "safe_eval ''Monitor1Width'' = Inr 100"
  by code_simp

text \<open>
  C10. Where the brackets stand in an expression does not matter: \<^const>\<open>safe_eval\<close>
  gives the same outcome, value or exception, on an expression and on the expression
  with every \<^verbatim>\<open>[\<close> and \<^verbatim>\<open>]\<close> deleted. So \<^verbatim>\<open>Moni[tor1]Width\<close> evaluates like
  \<^verbatim>\<open>Monitor1Width\<close>, to 100.
\<close>

theorem brackets_irrelevant:
  "safe_eval e = safe_eval (filter (\<lambda>c. c \<noteq> CHR ''['' \<and> c \<noteq> CHR '']'') e)
   \<and> safe_eval ''Moni[tor1]Width'' = safe_eval ''Monitor1Width''
   \<and> safe_eval ''Monitor1Width'' = Inr 100"
proof -
  have "safe_eval e = safe_eval (filter (\<lambda>c. c \<noteq> CHR ''['' \<and> c \<noteq> CHR '']'') e)" for e
    by (simp add: safe_eval_def remove_brackets_filter)
  from this this [of "''Moni[tor1]Width''"] show ?thesis
    by (simp add: safe_eval_Monitor1Width)
qed

theorem brackets_irrelevant_witness:
  "safe_eval ''[Monitor1Width]/2'' = safe_eval ''Monitor1Width/2''"
  using brackets_irrelevant [of "''[Monitor1Width]/2''"] by simp

subsection \<open>The round trip of one group\<close>

text \<open>
  C6. The text of the five lines \<^verbatim>\<open>[1]\<close>, \<^verbatim>\<open>GridLeft=0\<close>,
  \<^verbatim>\<open>GridRight=[Monitor1Width]/2\<close>, \<^verbatim>\<open>GridTop=0\<close>, \<^verbatim>\<open>GridBottom=[Monitor1Height]/2\<close>
  converts to exactly one zone, with x = 0, y = 0, width = 50 and height = 50, where
  \<^verbatim>\<open>Monitor1Width\<close> and \<^verbatim>\<open>Monitor1Height\<close> are bound to 100.
\<close>

theorem round_trip_scenario:
  "convert (parse_groups
     (''[1]'' @ [CHR 0x0A] @ ''GridLeft=0'' @ [CHR 0x0A] @ ''GridRight=[Monitor1Width]/2''
      @ [CHR 0x0A] @ ''GridTop=0'' @ [CHR 0x0A] @ ''GridBottom=[Monitor1Height]/2''))
   = Inr [\<lparr>x = 0, y = 0, width = 50, height = 50\<rparr>]
   \<and> VARS ''Monitor1Width'' = Some 100 \<and> VARS ''Monitor1Height'' = Some 100"
  by code_simp

subsection \<open>The normalizer\<close>














lemma edge_eq: "map_of g k = Some v \<Longrightarrow> edge g k = safe_eval v"
  by (simp add: edge_def getitem_def)

lemma has_all_keys_iff:
  "has_all_keys g \<longleftrightarrow>
     map_of g ''GridLeft'' \<noteq> None \<and> map_of g ''GridRight'' \<noteq> None
     \<and> map_of g ''GridTop'' \<noteq> None \<and> map_of g ''GridBottom'' \<noteq> None"
  by (simp add: has_all_keys_def)




lemma key_eq_iff: "key a = key b \<longleftrightarrow> a = b"
  by (cases a, cases b) (simp add: key_def)





















subsection \<open>The deduplicator\<close>

lemma upt_0_Suc: "[0..<Suc n] = 0 # map Suc [0..<n]"
  by (simp only: upt_conv_Cons [OF zero_less_Suc] map_Suc_upt)

lemma nth_filter_Cons:
  "map ((!) (z # zs)) (filter P [0..<Suc (length zs)])
   = (if P 0 then [z] else []) @ map ((!) zs) (filter (\<lambda>i. P (Suc i)) [0..<length zs])"
  by (simp only: upt_0_Suc) (simp add: filter_map comp_def)

lemma dedupe_first_occurrences:
  "dedupe uniq seen zs =
     uniq @ map ((!) zs)
       (filter (\<lambda>i. key (zs ! i) \<notin> seen \<and> zs ! i \<notin> set (take i zs)) [0..<length zs])"
proof (induction zs arbitrary: uniq seen)
  case Nil
  then show ?case by simp
next
  case (Cons z zs)
  let ?P = "\<lambda>i. key ((z # zs) ! i) \<notin> seen \<and> (z # zs) ! i \<notin> set (take i (z # zs))"
  have split: "map ((!) (z # zs)) (filter ?P [0..<length (z # zs)])
     = (if key z \<notin> seen then [z] else [])
       @ map ((!) zs) (filter (\<lambda>i. key (zs ! i) \<notin> seen \<and> zs ! i \<noteq> z \<and> zs ! i \<notin> set (take i zs))
                        [0..<length zs])"
    using nth_filter_Cons [of z zs ?P] by simp
  show ?case
  proof (cases "key z \<in> seen")
    case True
    have "filter (\<lambda>i. key (zs ! i) \<notin> seen \<and> zs ! i \<noteq> z \<and> zs ! i \<notin> set (take i zs)) [0..<length zs]
       = filter (\<lambda>i. key (zs ! i) \<notin> seen \<and> zs ! i \<notin> set (take i zs)) [0..<length zs]"
      using True by (intro filter_cong) auto
    then show ?thesis
      unfolding split using True Cons.IH [of uniq seen] by simp
  next
    case False
    have "filter (\<lambda>i. key (zs ! i) \<notin> insert (key z) seen \<and> zs ! i \<notin> set (take i zs)) [0..<length zs]
       = filter (\<lambda>i. key (zs ! i) \<notin> seen \<and> zs ! i \<noteq> z \<and> zs ! i \<notin> set (take i zs)) [0..<length zs]"
      by (intro filter_cong) (auto simp: key_eq_iff)
    then show ?thesis
      unfolding split using False Cons.IH [of "uniq @ [z]" "insert (key z) seen"] by simp
  qed
qed

lemma convert_two_same:
  assumes "convert_group g1 = Inr (Some z)" and "convert_group g2 = Inr (Some z)"
  shows "convert [g1, g2] = Inr [z]"
  using assms by (simp add: convert_def)

text \<open>
  C7. The deduplicator keeps exactly the first occurrence of each distinct rectangle
  \<open>(x, y, width, height)\<close>, in the order of the first occurrences: the element at
  position \<open>i\<close> is kept if and only if it does not occur before position \<open>i\<close>. This is
  what \<^const>\<open>convert\<close> returns for the rectangles of its first loop, and two groups
  that produce the same rounded rectangle yield one rectangle.
\<close>

theorem deduplicator_keeps_first_occurrences:
  "dedupe [] {} zs = map ((!) zs) (filter (\<lambda>i. zs ! i \<notin> set (take i zs)) [0..<length zs])
   \<and> (collect_zones [] gs = Inr zs \<longrightarrow>
        convert gs = Inr (map ((!) zs) (filter (\<lambda>i. zs ! i \<notin> set (take i zs)) [0..<length zs])))
   \<and> (convert_group g1 = Inr (Some z) \<and> convert_group g2 = Inr (Some z) \<longrightarrow>
        convert [g1, g2] = Inr [z])"
proof -
  have d: "dedupe [] {} zs = map ((!) zs) (filter (\<lambda>i. zs ! i \<notin> set (take i zs)) [0..<length zs])"
    using dedupe_first_occurrences [of "[]" "{}" zs] by simp
  then show ?thesis by (simp add: convert_def convert_two_same)
qed

lemma convert_group_quarter:
  "convert_group [(''GridLeft'', ''0''), (''GridRight'', ''50''),
                  (''GridTop'', ''0''), (''GridBottom'', ''50'')]
   = Inr (Some \<lparr>x = 0, y = 0, width = 50, height = 50\<rparr>)"
  by code_simp

theorem deduplicator_keeps_first_occurrences_witness:
  "dedupe [] {} [\<lparr>x = 0, y = 0, width = 50, height = 50\<rparr>,
                 \<lparr>x = 50, y = 0, width = 50, height = 50\<rparr>,
                 \<lparr>x = 0, y = 0, width = 50, height = 50\<rparr>]
     = [\<lparr>x = 0, y = 0, width = 50, height = 50\<rparr>, \<lparr>x = 50, y = 0, width = 50, height = 50\<rparr>]
   \<and> convert [[(''GridLeft'', ''0''), (''GridRight'', ''50''),
                (''GridTop'', ''0''), (''GridBottom'', ''50'')],
               [(''GridLeft'', ''0''), (''GridRight'', ''50''),
                (''GridTop'', ''0''), (''GridBottom'', ''50'')]]
     = Inr [\<lparr>x = 0, y = 0, width = 50, height = 50\<rparr>]"
proof -
  let ?a = "\<lparr>x = 0, y = 0, width = 50, height = 50\<rparr>"
  let ?b = "\<lparr>x = 50, y = 0, width = 50, height = 50\<rparr>"
  let ?g = "[(''GridLeft'', ''0''), (''GridRight'', ''50''),
             (''GridTop'', ''0''), (''GridBottom'', ''50'')]"
  have i: "[0..<length [?a, ?b, ?a]] = [0, 1, 2]" by code_simp
  have f: "map ((!) [?a, ?b, ?a])
             (filter (\<lambda>i. [?a, ?b, ?a] ! i \<notin> set (take i [?a, ?b, ?a])) [0..<length [?a, ?b, ?a]])
           = [?a, ?b]"
    unfolding i by (simp add: numeral_2_eq_2)
  show ?thesis
    using deduplicator_keeps_first_occurrences [of "[?a, ?b, ?a]" "[]" ?g ?a ?g]
      convert_group_quarter
    by (simp only: f)
qed

subsection \<open>Incomplete groups\<close>

lemma collect_zones_skip:
  "convert_group g = Inr None \<Longrightarrow>
     collect_zones acc (gs1 @ g # gs2) = collect_zones acc (gs1 @ gs2)"
  by (induction gs1 arbitrary: acc) (auto split: sum.splits option.splits)

text \<open>
  C9. A group that lacks one of the keys \<^verbatim>\<open>GridLeft\<close>, \<^verbatim>\<open>GridRight\<close>, \<^verbatim>\<open>GridTop\<close>,
  \<^verbatim>\<open>GridBottom\<close> produces no rectangle and no exception, whatever its other values are:
  the conversion of a list of groups is the conversion of the list without it.
\<close>

theorem incomplete_group_discarded:
  assumes "k \<in> {''GridLeft'', ''GridRight'', ''GridTop'', ''GridBottom''}"
    and "map_of g k = None"
  shows "convert_group g = Inr None \<and> convert (gs1 @ g # gs2) = convert (gs1 @ gs2)"
proof -
  from assms have "\<not> has_all_keys g" by (auto simp: has_all_keys_iff)
  then have n: "convert_group g = Inr None" by (simp add: convert_group_def)
  then show ?thesis by (simp add: convert_def collect_zones_skip)
qed

theorem incomplete_group_discarded_witness:
  "convert_group [(''GridLeft'', ''DROP TABLE''), (''GridTop'', ''0'')] = Inr None
   \<and> convert [[(''GridLeft'', ''0''), (''GridRight'', ''50''),
                (''GridTop'', ''0''), (''GridBottom'', ''50'')],
               [(''GridLeft'', ''DROP TABLE''), (''GridTop'', ''0'')]]
     = Inr [\<lparr>x = 0, y = 0, width = 50, height = 50\<rparr>]"
proof -
  have c: "convert [[(''GridLeft'', ''0''), (''GridRight'', ''50''),
                (''GridTop'', ''0''), (''GridBottom'', ''50'')]]
     = Inr [\<lparr>x = 0, y = 0, width = 50, height = 50\<rparr>]"
    using convert_group_quarter by (simp add: convert_def)
  show ?thesis
    using incomplete_group_discarded
      [of "''GridRight''" "[(''GridLeft'', ''DROP TABLE''), (''GridTop'', ''0'')]"
          "[[(''GridLeft'', ''0''), (''GridRight'', ''50''),
             (''GridTop'', ''0''), (''GridBottom'', ''50'')]]" "[]"] c
    by simp
qed

subsection \<open>Section headers\<close>

lemma header_match_line: "header_match line \<Longrightarrow> line \<noteq> [] \<and> \<not> prefix '';'' line"
  by (cases line) (auto simp: header_match_def)

text \<open>
  C5, as the code has it. On a line that matches a bracketed integer header a new, empty
  group starts, and the previous group is appended to the list of groups, complete or
  not, if it holds at least one recognised key; a previous group with no key is not
  appended.
\<close>

theorem header_flushes_nonempty_group:
  assumes "header_match (strip raw)"
  shows "parse_line (groups, cur) raw =
     ((case cur of
         None \<Rightarrow> groups
       | Some g \<Rightarrow> if g \<noteq> [] then groups @ [g] else groups),
      Some [])"
  using assms header_match_line [OF assms] by (simp add: parse_line_def flush_def)

theorem header_flushes_nonempty_group_witness:
  "parse_line ([], Some [(''GridLeft'', ''0'')]) ''[2]'' = ([[(''GridLeft'', ''0'')]], Some [])"
proof -
  have "header_match (strip ''[2]'')" by code_simp
  from header_flushes_nonempty_group [OF this, of "[]" "Some [(''GridLeft'', ''0'')]"]
  show ?thesis by simp
qed

text \<open>A header after a group with no key appends nothing: two headers, one group.\<close>

theorem empty_group_not_flushed_counterexample:
  "header_match (strip ''[2]'')
   \<and> parse_line ([], Some []) ''[2]'' = ([], Some [])
   \<and> parse_groups (''[1]'' @ [CHR 0x0A] @ ''[2]'' @ [CHR 0x0A] @ ''GridLeft=0'')
       = [[(''GridLeft'', ''0'')]]"
  by code_simp

subsection \<open>Unsafe characters and unbound names\<close>















subsection \<open>An expression that is not an expression\<close>

lemma collect_zones_append:
  "collect_zones acc (gs1 @ gs2) =
     (case collect_zones acc gs1 of Inl err \<Rightarrow> Inl err | Inr zs \<Rightarrow> collect_zones zs gs2)"
  by (induction gs1 arbitrary: acc) (auto split: sum.splits option.splits)

lemma safe_eval_DROP_TABLE: "safe_eval ''DROP TABLE'' = Inl SyntaxError"
  by code_simp

text \<open>
  C4, as the code has it. \<^verbatim>\<open>DROP TABLE\<close> consists of letters and a blank, so it passes
  the allow-list, and \<^verbatim>\<open>eval\<close> raises \<^verbatim>\<open>SyntaxError\<close>. When the groups before the one
  with \<^verbatim>\<open>GridLeft=DROP TABLE\<close> (its other three keys present) raise nothing, the
  exception leaves \<^const>\<open>convert\<close> and \<^const>\<open>convert_file\<close>, and the file system is
  unchanged: no directory is made and no file is written.
\<close>

theorem drop_table_aborts:
  assumes "files fs src_path = Some (Text text)"
    and "parse_groups text = gs1 @ g # gs2"
    and "collect_zones [] gs1 = Inr zs"
    and "map_of g ''GridLeft'' = Some ''DROP TABLE''"
    and "map_of g ''GridRight'' \<noteq> None" and "map_of g ''GridTop'' \<noteq> None"
    and "map_of g ''GridBottom'' \<noteq> None"
  shows "safe_eval ''DROP TABLE'' = Inl SyntaxError
         \<and> convert (parse_groups text) = Inl SyntaxError
         \<and> convert_file src_path outdir fs = (fs, Inl SyntaxError)"
proof -
  have "has_all_keys g" using assms(4-7) by (simp add: has_all_keys_iff)
  moreover have "edge g ''GridLeft'' = Inl SyntaxError"
    using assms(4) by (simp add: edge_eq safe_eval_DROP_TABLE)
  ultimately have "convert_group g = Inl SyntaxError" by (simp add: convert_group_def)
  then have "collect_zones [] (gs1 @ g # gs2) = Inl SyntaxError"
    using assms(3) by (simp add: collect_zones_append)
  then have c: "convert (parse_groups text) = Inl SyntaxError"
    using assms(2) by (simp add: convert_def)
  then show ?thesis using assms(1) by (simp add: convert_file_def safe_eval_DROP_TABLE)
qed

theorem drop_table_aborts_witness:
  "convert_file [''in'', ''grid.ini''] [''out'']
     \<lparr>dirs = {[''in'']},
      files = [[''in'', ''grid.ini''] \<mapsto>
        Text (''[1]'' @ [CHR 0x0A] @ ''GridLeft=DROP TABLE'' @ [CHR 0x0A] @ ''GridRight=50''
              @ [CHR 0x0A] @ ''GridTop=0'' @ [CHR 0x0A] @ ''GridBottom=50'')]\<rparr>
   = (\<lparr>dirs = {[''in'']},
      files = [[''in'', ''grid.ini''] \<mapsto>
        Text (''[1]'' @ [CHR 0x0A] @ ''GridLeft=DROP TABLE'' @ [CHR 0x0A] @ ''GridRight=50''
              @ [CHR 0x0A] @ ''GridTop=0'' @ [CHR 0x0A] @ ''GridBottom=50'')]\<rparr>,
      Inl SyntaxError)"
proof -
  let ?text = "''[1]'' @ [CHR 0x0A] @ ''GridLeft=DROP TABLE'' @ [CHR 0x0A] @ ''GridRight=50''
              @ [CHR 0x0A] @ ''GridTop=0'' @ [CHR 0x0A] @ ''GridBottom=50''"
  let ?g = "[(''GridLeft'', ''DROP TABLE''), (''GridRight'', ''50''),
             (''GridTop'', ''0''), (''GridBottom'', ''50'')]"
  let ?fs = "\<lparr>dirs = {[''in'']}, files = [[''in'', ''grid.ini''] \<mapsto> Text ?text]\<rparr>"
  have p: "parse_groups ?text = [] @ ?g # []" by code_simp
  have f: "files ?fs [''in'', ''grid.ini''] = Some (Text ?text)" by simp
  from drop_table_aborts [OF f p, of "[]" "[''out'']"] show ?thesis by simp
qed

text \<open>
  The failure is neither the \<^verbatim>\<open>ValueError\<close> of an unsafe expression nor that of an
  unbound name.
\<close>

theorem drop_table_counterexample:
  "SAFE_PATTERN_fullmatch (remove_brackets ''DROP TABLE'')
   \<and> safe_eval ''DROP TABLE'' = Inl SyntaxError
   \<and> safe_eval ''DROP TABLE''
       \<noteq> Inl (ValueError (''Unsafe/unsupported expression: '' @ remove_brackets ''DROP TABLE''))
   \<and> (\<forall>n. safe_eval ''DROP TABLE'' \<noteq> Inl (UnboundName n))"
proof -
  have "SAFE_PATTERN_fullmatch (remove_brackets ''DROP TABLE'')" by code_simp
  then show ?thesis by (simp add: safe_eval_DROP_TABLE)
qed

end
